theory Spec2Isabelle
  imports Complex_Main "HOL-Library.AList" "HOL-Library.Sublist"
begin

section \<open>JavaScript values\<close>

text \<open>
  The values that travel between the settings panel and the configuration store are the
  primitives a settings file can hold: booleans, finite numbers, strings, \<open>null\<close>, and
  \<open>undefined\<close> for an unset key. The messages between the extension and the webview are
  serialised, so neither \<open>NaN\<close> nor an infinity reaches the ledger or a snapshot; on these
  values the strict comparison \<open>!==\<close> of the source is plain inequality. A finite number is
  modelled by its exact value.
\<close>

datatype jsval = Undefined | Null | Bool bool | Num rat | Str string

text \<open>
  A number local to the webview script (the result of \<open>parseFloat\<close>) can also be \<open>NaN\<close>
  or an infinity.
\<close>

datatype jsnum = NaN | PosInfinity | NegInfinity | Fin rat

subsection \<open>Decimal digits\<close>

definition digitChar :: "nat \<Rightarrow> char" where
  "digitChar d = char_of (48 + d)"

definition isDigit :: "char \<Rightarrow> bool" where
  "isDigit c = (48 \<le> (of_char c :: nat) \<and> (of_char c :: nat) \<le> 57)"

definition digitVal :: "char \<Rightarrow> nat" where
  "digitVal c = of_char c - 48"

fun natToString :: "nat \<Rightarrow> string" where
  "natToString n = (if n < 10 then [digitChar n] else natToString (n div 10) @ [digitChar (n mod 10)])"

declare natToString.simps [simp del]

definition digitsVal :: "string \<Rightarrow> nat" where
  "digitsVal ds = foldl (\<lambda>a c. 10 * a + digitVal c) 0 ds"

text \<open>
  The digits after the decimal point of a fraction \<open>0 \<le> f < 1\<close>, by long division. The
  first argument bounds the number of digits produced.
\<close>

fun fracDigits :: "nat \<Rightarrow> rat \<Rightarrow> string" where
  "fracDigits 0 f = []"
| "fracDigits (Suc n) f =
     (if f = 0 then []
      else (let d = nat \<lfloor>f * 10\<rfloor> in digitChar d # fracDigits n (f * 10 - of_nat d)))"

subsection \<open>Number to string\<close>

text \<open>
  \<open>Number::toString\<close> on a finite value: the sign, the integer part and, for a value that
  is not an integer, the decimal point and the fraction digits. This is the text JavaScript
  prints for the decimal values a slider or a settings file holds (magnitude below
  \<open>10\<^sup>2\<^sup>1\<close> and at least \<open>10\<^sup>-\<^sup>6\<close>); the exponent notation JavaScript uses
  outside that range is not modelled.
\<close>

definition ratToString :: "rat \<Rightarrow> string" where
  "ratToString r =
     (let a = \<bar>r\<bar>; i = nat \<lfloor>a\<rfloor>; f = a - of_nat i
      in (if r < 0 then ''-'' else '''') @ natToString i @
         (if f = 0 then '''' else ''.'' @ fracDigits 20 f))"

fun numToString :: "jsnum \<Rightarrow> string" where
  "numToString NaN = ''NaN''"
| "numToString PosInfinity = ''Infinity''"
| "numToString NegInfinity = ''-Infinity''"
| "numToString (Fin r) = ratToString r"

text \<open>
  \<open>Number.prototype.toFixed(1)\<close>: the integer \<open>n\<close> closest to \<open>10 * x\<close> (the larger one on
  a tie), printed with one digit after the decimal point; a negative \<open>x\<close> is printed as the
  sign followed by the text for \<open>-x\<close>. At \<open>10\<^sup>2\<^sup>1\<close> and above the result is that of
  \<open>toString\<close>. Since a number is modelled by its exact value, a decimal that has no
  exact binary representation is rounded here as the decimal it is written as.
\<close>

definition toFixed1 :: "jsnum \<Rightarrow> string" where
  "toFixed1 x =
     (case x of
        Fin r \<Rightarrow>
          (if \<bar>r\<bar> \<ge> 10 ^ 21 then ratToString r
           else (let n = nat \<lfloor>\<bar>r\<bar> * 10 + 1 / 2\<rfloor>
                 in (if r < 0 then ''-'' else '''') @
                    natToString (n div 10) @ ''.'' @ [digitChar (n mod 10)]))
      | _ \<Rightarrow> numToString x)"

text \<open>The conversion to a string that the host applies when a value is stored in a
  string-valued property.\<close>

fun ToString :: "jsval \<Rightarrow> string" where
  "ToString Undefined = ''undefined''"
| "ToString Null = ''null''"
| "ToString (Bool b) = (if b then ''true'' else ''false'')"
| "ToString (Num r) = ratToString r"
| "ToString (Str s) = s"

subsection \<open>parseFloat\<close>

definition isWhiteSpace :: "char \<Rightarrow> bool" where
  "isWhiteSpace c = ((of_char c :: nat) \<in> {9, 10, 11, 12, 13, 32})"

text \<open>
  \<open>parseFloat\<close> skips leading white space and reads the longest prefix that is a decimal
  literal: an optional sign, then \<open>Infinity\<close> or digits with an optional fraction and an
  optional exponent. Without such a prefix the result is \<open>NaN\<close>.
\<close>

definition parseExponent :: "string \<Rightarrow> int" where
  "parseExponent s =
     (case s of
        c # t \<Rightarrow>
          (if c = CHR ''e'' \<or> c = CHR ''E'' then
             (let (neg, u) = (case t of
                                d # u' \<Rightarrow> (if d = CHR ''-'' then (True, u')
                                           else if d = CHR ''+'' then (False, u')
                                           else (False, t))
                              | [] \<Rightarrow> (False, t));
                  ds = takeWhile isDigit u
              in if ds = [] then 0
                 else if neg then - int (digitsVal ds) else int (digitsVal ds))
           else 0)
      | [] \<Rightarrow> 0)"

definition parseUnsigned :: "string \<Rightarrow> jsnum" where
  "parseUnsigned s =
     (if prefix ''Infinity'' s then PosInfinity
      else
        (let ip = takeWhile isDigit s;
             r1 = dropWhile isDigit s;
             (fp, r2) = (case r1 of
                           c # t \<Rightarrow> (if c = CHR ''.'' then (takeWhile isDigit t, dropWhile isDigit t)
                                     else ([], r1))
                         | [] \<Rightarrow> ([], r1))
         in if ip = [] \<and> fp = [] then NaN
            else
              (let m = of_nat (digitsVal ip) + of_nat (digitsVal fp) / 10 ^ length fp;
                   e = parseExponent r2
               in Fin (if e < 0 then m / 10 ^ nat (- e) else m * 10 ^ nat e))))"

fun negate :: "jsnum \<Rightarrow> jsnum" where
  "negate NaN = NaN"
| "negate PosInfinity = NegInfinity"
| "negate NegInfinity = PosInfinity"
| "negate (Fin r) = Fin (- r)"

definition parseFloat :: "string \<Rightarrow> jsnum" where
  "parseFloat s =
     (case dropWhile isWhiteSpace s of
        [] \<Rightarrow> NaN
      | c # t \<Rightarrow>
          (if c = CHR ''-'' then negate (parseUnsigned t)
           else if c = CHR ''+'' then parseUnsigned t
           else parseUnsigned (c # t)))"

subsection \<open>String.prototype.includes\<close>

fun str_includes :: "string \<Rightarrow> string \<Rightarrow> bool" where
  "str_includes [] sub = (sub = [])"
| "str_includes (c # cs) sub = (prefix sub (c # cs) \<or> str_includes cs sub)"

section \<open>The webview: controls, the pending ledger and reconciliation\<close>

subsection \<open>Objects and the document\<close>

text \<open>
  A plain JavaScript object whose values are primitives is a list of own properties in
  insertion order. Assignment \<open>obj[key] = value\<close> overwrites the property in place or
  appends it (\<open>AList.update\<close>), \<open>delete obj[key]\<close> removes it (\<open>AList.delete\<close>).
\<close>

type_synonym object = "(string \<times> jsval) list"

definition hasOwnProperty :: "object \<Rightarrow> string \<Rightarrow> bool" where
  "hasOwnProperty obj key = (map_of obj key \<noteq> None)"

definition getProperty :: "object \<Rightarrow> string \<Rightarrow> jsval" where
  "getProperty obj key = (case map_of obj key of Some v \<Rightarrow> v | None \<Rightarrow> Undefined)"

text \<open>
  An element of the panel's markup, with the properties the script reads and writes.
  \<open>el_type\<close> is \<open>None\<close> for an element without a \<open>type\<close> property (a \<open>span\<close>). The
  document maps an id to its element; \<open>getElementById\<close> is the lookup. A property the host
  keeps as a string holds the string conversion of what the script assigns; the host's
  further adjustment of a slider value to its \<open>min\<close>, \<open>max\<close> and \<open>step\<close> is left out.
\<close>

record element =
  el_type :: "string option"
  el_tagName :: string
  el_value :: string
  el_textContent :: string

type_synonym document = "string \<rightharpoonup> element"

text \<open>The messages the script posts to the extension.\<close>

datatype command =
    ApplySettings object
  | ResetSettings "string list"
  | ApplyRecommended
  | GetCurrentSettings

record webview =
  pendingUpdates :: object
  doc :: document
  posted :: "command list"

subsection \<open>updateRangeValue\<close>

text \<open>The text computed for the value label of the slider with id \<open>eid\<close>.\<close>

definition displayValue :: "string \<Rightarrow> jsnum \<Rightarrow> string" where
  "displayValue eid val =
     (if str_includes eid ''FontSize'' \<or> str_includes eid ''ScrollbarSize'' then
        (if val = Fin 0 then ''Auto'' else numToString val @ ''px'')
      else if str_includes eid ''LineHeight'' then
        (if val = Fin 0 then ''Auto'' else toFixed1 val)
      else if str_includes eid ''LetterSpacing'' then numToString val @ ''px''
      else if eid = ''window.zoomLevel'' then toFixed1 val
      else numToString val)"

definition updateRangeValue :: "string \<Rightarrow> element \<Rightarrow> document \<Rightarrow> document" where
  "updateRangeValue eid elem d =
     (case d (eid @ ''-value'') of
        None \<Rightarrow> d
      | Some valueSpan \<Rightarrow>
          d(eid @ ''-value'' \<mapsto>
              valueSpan\<lparr>el_textContent := displayValue eid (parseFloat (el_value elem))\<rparr>))"

subsection \<open>updateUIWithSettings\<close>

definition truthy :: "jsval \<Rightarrow> bool" where
  "truthy v = (case v of Undefined \<Rightarrow> False | Null \<Rightarrow> False | Bool b \<Rightarrow> b
                 | Num r \<Rightarrow> r \<noteq> 0 | Str s \<Rightarrow> s \<noteq> [])"

text \<open>
  The second half of the loop body: look the control up by the key and, when there is
  one, store the incoming value in it according to the kind of control.
\<close>

definition updateControl :: "string \<Rightarrow> jsval \<Rightarrow> document \<Rightarrow> document" where
  "updateControl key val d =
     (case d key of
        None \<Rightarrow> d
      | Some elem \<Rightarrow>
          if el_type elem = Some ''range'' then
            (let elem' = elem\<lparr>el_value :=
                           ToString (if val \<noteq> Null \<and> val \<noteq> Undefined then val else Num 0)\<rparr>
             in updateRangeValue key elem' (d(key \<mapsto> elem')))
          else if el_type elem = Some ''number'' then
            d(key \<mapsto> elem\<lparr>el_value :=
                           (if val \<noteq> Null \<and> val \<noteq> Undefined then ToString val else [])\<rparr>)
          else if el_tagName elem = ''SELECT'' \<and> (val = Bool True \<or> val = Bool False) then
            d(key \<mapsto> elem\<lparr>el_value := ToString val\<rparr>)
          else if el_tagName elem = ''SELECT'' then
            d(key \<mapsto> elem\<lparr>el_value :=
                           (if val = Null \<or> val = Undefined then [] else ToString val)\<rparr>)
          else
            d(key \<mapsto> elem\<lparr>el_value := (if truthy val then ToString val else [])\<rparr>))"

text \<open>
  The string that \<open>updateControl\<close> stores in the value of a control: the right-hand sides
  of its five assignments, by kind of control.
\<close>

definition assigned :: "element \<Rightarrow> jsval \<Rightarrow> string" where
  "assigned elem val =
     (if el_type elem = Some ''range'' then
        ToString (if val \<noteq> Null \<and> val \<noteq> Undefined then val else Num 0)
      else if el_type elem = Some ''number'' then
        (if val \<noteq> Null \<and> val \<noteq> Undefined then ToString val else [])
      else if el_tagName elem = ''SELECT'' \<and> (val = Bool True \<or> val = Bool False) then ToString val
      else if el_tagName elem = ''SELECT'' then
        (if val = Null \<or> val = Undefined then [] else ToString val)
      else (if truthy val then ToString val else []))"

text \<open>
  The loop over the entries of the snapshot. An entry whose key has a pending update with
  a different value is skipped (\<open>continue\<close>); a matching pending update is cleared before
  the control is updated.
\<close>

fun updateUIWithSettings :: "object \<Rightarrow> webview \<Rightarrow> webview" where
  "updateUIWithSettings [] w = w"
| "updateUIWithSettings ((key, val) # settings) w =
     (if hasOwnProperty (pendingUpdates w) key then
        (if getProperty (pendingUpdates w) key \<noteq> val then updateUIWithSettings settings w
         else updateUIWithSettings settings
                (w\<lparr>pendingUpdates := AList.delete key (pendingUpdates w),
                   doc := updateControl key val (doc w)\<rparr>))
      else updateUIWithSettings settings (w\<lparr>doc := updateControl key val (doc w)\<rparr>))"

subsection \<open>applySetting and the two buttons\<close>

definition applySetting :: "string \<Rightarrow> jsval \<Rightarrow> webview \<Rightarrow> webview" where
  "applySetting key val w =
     w\<lparr>pendingUpdates := AList.update key val (pendingUpdates w),
       posted := posted w @ [ApplySettings [(key, val)]]\<rparr>"

definition applyRecommended :: "webview \<Rightarrow> webview" where
  "applyRecommended w = w\<lparr>posted := posted w @ [ApplyRecommended]\<rparr>"

definition allSettings :: "string list" where
  "allSettings =
     [''workbench.colorTheme'',
      ''window.zoomLevel'',
      ''editor.fontFamily'',
      ''editor.fontSize'',
      ''editor.lineHeight'',
      ''editor.letterSpacing'',
      ''editor.mouseWheelZoom'',
      ''editor.cursorStyle'',
      ''editor.cursorBlinking'',
      ''editor.matchBrackets'',
      ''editor.bracketPairColorization.enabled'',
      ''editor.wordWrap'',
      ''editor.accessibilitySupport'',
      ''editor.minimap.enabled'',
      ''terminal.integrated.fontSize'',
      ''terminal.integrated.cursorStyle'',
      ''editor.guides.indentation'',
      ''editor.guides.bracketPairs'',
      ''editor.smoothScrolling'',
      ''editor.scrollbar.verticalScrollbarSize'',
      ''editor.scrollbar.horizontalScrollbarSize'',
      ''editor.wrappingIndent'',
      ''editor.suggestFontSize'',
      ''editor.suggestLineHeight'',
      ''editor.inlayHints.enabled'',
      ''editor.parameterHints.enabled'',
      ''editor.hover.enabled'',
      ''workbench.preferredDarkColorTheme'',
      ''workbench.preferredLightColorTheme'',
      ''workbench.preferredHighContrastColorTheme'',
      ''terminal.integrated.lineHeight'',
      ''terminal.integrated.cursorBlinking'']"

definition resetAllSettings :: "webview \<Rightarrow> webview" where
  "resetAllSettings w = w\<lparr>posted := posted w @ [ResetSettings allSettings]\<rparr>"

text \<open>
  What can happen to the webview: the change handler of a control calls \<open>applySetting\<close>
  with the key and the parsed value; the user moves a slider to a value and its input
  handler calls \<open>updateRangeValue\<close>; the user presses one of the two buttons; or a snapshot
  arrives from the extension (the \<open>updateSettings\<close> message).
\<close>

datatype wevent =
    Commit string jsval
  | SliderInput string string
  | PressRecommended
  | PressReset
  | UpdateSettings object

fun handle :: "wevent \<Rightarrow> webview \<Rightarrow> webview" where
  "handle (Commit key val) w = applySetting key val w"
| "handle (SliderInput eid v) w =
     (case doc w eid of
        None \<Rightarrow> w
      | Some elem \<Rightarrow>
          (let elem' = elem\<lparr>el_value := v\<rparr>
           in w\<lparr>doc := updateRangeValue eid elem' ((doc w)(eid \<mapsto> elem'))\<rparr>))"
| "handle PressRecommended w = applyRecommended w"
| "handle PressReset w = resetAllSettings w"
| "handle (UpdateSettings settings) w = updateUIWithSettings settings w"

fun handleAll :: "wevent list \<Rightarrow> webview \<Rightarrow> webview" where
  "handleAll [] w = w"
| "handleAll (e # es) w = handleAll es (handle e w)"

subsection \<open>A small panel for examples\<close>

text \<open>
  Four controls of the panel as its markup declares them: the font-size slider with its
  label, the suggest-line-height slider with its label, the line-height number input and
  the cursor-style dropdown.
\<close>

definition slider :: "string \<Rightarrow> element" where
  "slider v = \<lparr>el_type = Some ''range'', el_tagName = ''INPUT'', el_value = v, el_textContent = []\<rparr>"

definition label :: "string \<Rightarrow> element" where
  "label t = \<lparr>el_type = None, el_tagName = ''SPAN'', el_value = [], el_textContent = t\<rparr>"

definition numberInput :: "string \<Rightarrow> element" where
  "numberInput v = \<lparr>el_type = Some ''number'', el_tagName = ''INPUT'', el_value = v, el_textContent = []\<rparr>"

definition dropdown :: "string \<Rightarrow> element" where
  "dropdown v = \<lparr>el_type = Some ''select-one'', el_tagName = ''SELECT'', el_value = v, el_textContent = []\<rparr>"

definition panelDoc :: document where
  "panelDoc = map_of
     [(''editor.fontSize'', slider ''14''),
      (''editor.fontSize-value'', label ''14px''),
      (''editor.suggestLineHeight'', slider ''0''),
      (''editor.suggestLineHeight-value'', label ''0''),
      (''editor.lineHeight'', numberInput ''0''),
      (''editor.cursorStyle'', dropdown ''line'')]"

definition loaded :: webview where
  "loaded = \<lparr>pendingUpdates = [], doc = panelDoc, posted = []\<rparr>"

section \<open>The extension: the store, the bulk operations and the debounced listener\<close>

subsection \<open>The configuration store\<close>

text \<open>
  Modelled from the spec: the Configuration Store, an external collaborator of the panel
  with the operations \<open>get(key) -> Value | Absent\<close> and \<open>update(key, value | Absent)\<close>. The
  store is the map of the user's settings. A key without a value is absent and reads as
  \<open>undefined\<close>; an update with \<open>undefined\<close> clears the key. A write takes effect when it is
  issued and does not fail, so the \<open>catch\<close> branches of the callers are never entered.
\<close>

type_synonym store = "string \<rightharpoonup> jsval"

definition configGet :: "store \<Rightarrow> string \<Rightarrow> jsval" where
  "configGet cfg key = (case cfg key of Some v \<Rightarrow> v | None \<Rightarrow> Undefined)"

definition configUpdate :: "string \<Rightarrow> jsval \<Rightarrow> store \<Rightarrow> store" where
  "configUpdate key val cfg = (if val = Undefined then cfg(key := None) else cfg(key \<mapsto> val))"

text \<open>The loop \<open>for (const [key, value] of Object.entries(settings)) config.update(key, value)\<close>.\<close>

fun updateAll :: "object \<Rightarrow> store \<Rightarrow> store" where
  "updateAll [] cfg = cfg"
| "updateAll ((key, val) # settings) cfg = updateAll settings (configUpdate key val cfg)"

subsection \<open>The panel and its host\<close>

text \<open>
  The state of the panel on the extension side, together with what it uses of its host:
  the store, the handle kept in \<open>_configUpdateTimer\<close>, the host's queue of armed timers
  (handle and due time, in the order they were armed), the next free handle, the host's
  clock in milliseconds, the \<open>updateSettings\<close> messages posted to the webview (with the
  time of posting) and the notifications shown to the user.
\<close>

datatype notice = SettingsApplied | SettingsReset | RecommendedApplied

record panel =
  config :: store
  configUpdateTimer :: "nat option"
  timers :: "(nat \<times> nat) list"
  nextTimer :: nat
  clock :: nat
  sent :: "(nat \<times> object) list"
  shown :: "notice list"

subsection \<open>_sendCurrentSettings\<close>

definition currentSettingsKeys :: "string list" where
  "currentSettingsKeys =
     [''workbench.colorTheme'',
      ''window.zoomLevel'',
      ''editor.fontFamily'',
      ''editor.fontSize'',
      ''editor.lineHeight'',
      ''editor.letterSpacing'',
      ''editor.mouseWheelZoom'',
      ''editor.cursorStyle'',
      ''editor.cursorBlinking'',
      ''editor.matchBrackets'',
      ''editor.bracketPairColorization.enabled'',
      ''editor.wordWrap'',
      ''editor.accessibilitySupport'',
      ''editor.minimap.enabled'',
      ''terminal.integrated.fontSize'',
      ''terminal.integrated.cursorStyle'',
      ''editor.guides.indentation'',
      ''editor.guides.bracketPairs'',
      ''editor.smoothScrolling'',
      ''editor.scrollbar.verticalScrollbarSize'',
      ''editor.scrollbar.horizontalScrollbarSize'',
      ''editor.wrappingIndent'',
      ''editor.suggestFontSize'',
      ''editor.suggestLineHeight'',
      ''editor.inlayHints.enabled'',
      ''editor.parameterHints.enabled'',
      ''editor.hover.enabled'',
      ''workbench.preferredDarkColorTheme'',
      ''workbench.preferredLightColorTheme'',
      ''workbench.preferredHighContrastColorTheme'',
      ''terminal.integrated.lineHeight'',
      ''terminal.integrated.cursorBlinking'']"

text \<open>The snapshot of all tracked keys, read from the store as it is now.\<close>

definition currentSettings :: "store \<Rightarrow> object" where
  "currentSettings cfg = map (\<lambda>key. (key, configGet cfg key)) currentSettingsKeys"

definition sendCurrentSettings :: "panel \<Rightarrow> panel" where
  "sendCurrentSettings p = p\<lparr>sent := sent p @ [(clock p, currentSettings (config p))]\<rparr>"

subsection \<open>_applySettings, _resetSettings, _applyRecommendedSettings\<close>

definition applySettings :: "object \<Rightarrow> panel \<Rightarrow> panel" where
  "applySettings settings p =
     p\<lparr>config := updateAll settings (config p), shown := shown p @ [SettingsApplied]\<rparr>"

definition resetSettings :: "string list \<Rightarrow> panel \<Rightarrow> panel" where
  "resetSettings settingKeys p =
     sendCurrentSettings
       (p\<lparr>config := updateAll (map (\<lambda>key. (key, Undefined)) settingKeys) (config p),
          shown := shown p @ [SettingsReset]\<rparr>)"

definition recommendedSettings :: object where
  "recommendedSettings =
     [(''editor.fontFamily'',
         Str (CHR 0x27 # ''Atkinson Hyperlegible Mono'' @ CHR 0x27 # '', Consolas, '' @
              CHR 0x27 # ''Courier New'' @ CHR 0x27 # '', monospace'')),
      (''editor.fontSize'', Num 16),
      (''editor.mouseWheelZoom'', Bool True),
      (''editor.cursorStyle'', Str ''block''),
      (''editor.cursorBlinking'', Str ''solid''),
      (''editor.matchBrackets'', Str ''always''),
      (''editor.bracketPairColorization.enabled'', Bool True),
      (''editor.wordWrap'', Str ''on''),
      (''editor.accessibilitySupport'', Str ''on''),
      (''editor.minimap.enabled'', Bool False),
      (''editor.guides.indentation'', Bool True),
      (''editor.guides.bracketPairs'', Str ''active''),
      (''editor.smoothScrolling'', Bool True),
      (''editor.wrappingIndent'', Str ''same''),
      (''editor.inlayHints.enabled'', Str ''off''),
      (''editor.parameterHints.enabled'', Bool True),
      (''editor.hover.enabled'', Bool True),
      (''terminal.integrated.cursorStyle'', Str ''block''),
      (''terminal.integrated.cursorBlinking'', Bool True),
      (''accessibility.signals.enabled'', Bool True),
      (''audioCues.lineHasError'', Str ''on''),
      (''audioCues.lineHasBreakpoint'', Str ''on''),
      (''audioCues.taskCompleted'', Str ''on''),
      (''audioCues.taskFailed'', Str ''on'')]"

definition applyRecommendedSettings :: "panel \<Rightarrow> panel" where
  "applyRecommendedSettings p =
     sendCurrentSettings
       (p\<lparr>config := updateAll recommendedSettings (config p),
          shown := shown p @ [RecommendedApplied]\<rparr>)"


subsection \<open>Timers\<close>





subsection \<open>The configuration listener\<close>










subsection \<open>A panel for examples\<close>




section \<open>Properties of the webview\<close>

subsection \<open>The ledger as a list of properties\<close>

lemma update_update_same: "AList.update k b (AList.update k a l) = AList.update k b l"
  by (induction l) auto

lemma delete_as_filter:
  assumes "distinct (map fst l)" and "map_of l k = Some v"
  shows "AList.delete k l = filter (\<lambda>p. p \<noteq> (k, v)) l"
proof -
  have "\<And>p. p \<in> set l \<Longrightarrow> (fst p \<noteq> k) = (p \<noteq> (k, v))"
  proof -
    fix p assume "p \<in> set l"
    then have "map_of l (fst p) = Some (snd p)" using assms(1) by simp
    with assms(2) show "(fst p \<noteq> k) = (p \<noteq> (k, v))" by (cases p) auto
  qed
  then have "filter (\<lambda>p. fst p \<noteq> k) l = filter (\<lambda>p. p \<noteq> (k, v)) l"
    by (intro filter_cong) auto
  moreover have "AList.delete k l = filter (\<lambda>p. fst p \<noteq> k) l"
    by (induction l) (auto simp: AList.delete_eq)
  ultimately show ?thesis by simp
qed

lemma filter_drop_absent:
  assumes "q \<notin> set l"
  shows "filter (\<lambda>p. p \<noteq> q \<and> p \<notin> set xs) l = filter (\<lambda>p. p \<notin> set xs) l"
  using assms by (intro filter_cong) auto

lemma distinct_keys_count:
  "distinct (map fst l) \<Longrightarrow> length (filter (\<lambda>p. fst p = K) l) \<le> 1"
proof (induction l)
  case Nil
  then show ?case by simp
next
  case (Cons p l)
  show ?case
  proof (cases "fst p = K")
    case True
    with Cons.prems have "K \<notin> fst ` set l" by auto
    then have "filter (\<lambda>p. fst p = K) l = []" by (auto simp: filter_empty_conv)
    with True show ?thesis by simp
  next
    case False
    with Cons show ?thesis by simp
  qed
qed

lemma stale_all:
  assumes "distinct (map fst xs)" and "map_of xs K = Some V'" and "V' \<noteq> V"
  shows "\<forall>v'. (K, v') \<in> set xs \<longrightarrow> v' \<noteq> V"
proof (intro allI impI)
  fix v' assume "(K, v') \<in> set xs"
  then have "map_of xs K = Some v'" using assms(1) by simp
  with assms(2,3) show "v' \<noteq> V" by simp
qed

lemma split_distinct_key:
  assumes "distinct (map fst xs)" and "(K, V) \<in> set xs"
  obtains ys zs where "xs = ys @ (K, V) # zs" "K \<notin> fst ` set ys" "K \<notin> fst ` set zs"
proof -
  from assms(2) obtain ys zs where xs: "xs = ys @ (K, V) # zs" by (auto dest: split_list)
  with assms(1) have "K \<notin> fst ` set ys" "K \<notin> fst ` set zs" by auto
  with xs show thesis by (rule that)
qed

subsection \<open>What one control update touches\<close>

lemma assigned_cong:
  "el_type e1 = el_type e2 \<Longrightarrow> el_tagName e1 = el_tagName e2 \<Longrightarrow> assigned e1 v = assigned e2 v"
  by (simp add: assigned_def)

lemma label_neq [simp]: "k @ ''-value'' \<noteq> k" "k \<noteq> k @ ''-value''"
  by (auto dest: arg_cong [where f = length])

lemma updateControl_at_key:
  "d k = Some e \<Longrightarrow> updateControl k v d k = Some (e\<lparr>el_value := assigned e v\<rparr>)"
  by (auto simp: updateControl_def updateRangeValue_def assigned_def Let_def split: option.splits)

lemma updateControl_None: "d k = None \<Longrightarrow> updateControl k v d = d"
  by (simp add: updateControl_def)

lemma updateControl_dom: "(updateControl k v d j = None) = (d j = None)"
  by (auto simp: updateControl_def updateRangeValue_def Let_def split: option.splits)

lemma updateControl_type:
  "map_option el_type (updateControl k v d j) = map_option el_type (d j)"
  by (auto simp: updateControl_def updateRangeValue_def Let_def split: option.splits)

lemma updateControl_tagName:
  "map_option el_tagName (updateControl k v d j) = map_option el_tagName (d j)"
  by (auto simp: updateControl_def updateRangeValue_def Let_def split: option.splits)

lemma updateControl_value_other:
  "j \<noteq> k \<Longrightarrow> map_option el_value (updateControl k v d j) = map_option el_value (d j)"
  by (auto simp: updateControl_def updateRangeValue_def Let_def split: option.splits)

lemma updateControl_text_other:
  "j \<noteq> k @ ''-value'' \<Longrightarrow>
   map_option el_textContent (updateControl k v d j) = map_option el_textContent (d j)"
  by (auto simp: updateControl_def updateRangeValue_def Let_def split: option.splits)

lemma updateControl_label:
  "d k = Some e \<Longrightarrow> el_type e = Some ''range'' \<Longrightarrow> d (k @ ''-value'') = Some sp \<Longrightarrow>
   updateControl k v d (k @ ''-value'') =
     Some (sp\<lparr>el_textContent := displayValue k (parseFloat (assigned e v))\<rparr>)"
  by (auto simp: updateControl_def updateRangeValue_def assigned_def Let_def)

subsection \<open>What a reconciliation pass touches\<close>

lemma posted_updateUI: "posted (updateUIWithSettings xs w) = posted w"
  by (induction xs w rule: updateUIWithSettings.induct) auto

lemma updateUI_append:
  "updateUIWithSettings (xs @ ys) w = updateUIWithSettings ys (updateUIWithSettings xs w)"
  by (induction xs w rule: updateUIWithSettings.induct) auto

lemma updateUI_dom: "(doc (updateUIWithSettings xs w) j = None) = (doc w j = None)"
  by (induction xs w rule: updateUIWithSettings.induct) (auto simp: updateControl_dom)

lemma updateUI_type:
  "map_option el_type (doc (updateUIWithSettings xs w) j) = map_option el_type (doc w j)"
  by (induction xs w rule: updateUIWithSettings.induct) (auto simp: updateControl_type)

lemma updateUI_tagName:
  "map_option el_tagName (doc (updateUIWithSettings xs w) j) = map_option el_tagName (doc w j)"
  by (induction xs w rule: updateUIWithSettings.induct) (auto simp: updateControl_tagName)

lemma updateUI_value_other:
  "k \<notin> fst ` set xs \<Longrightarrow>
   map_option el_value (doc (updateUIWithSettings xs w) k) = map_option el_value (doc w k)"
  by (induction xs w rule: updateUIWithSettings.induct) (auto simp: updateControl_value_other)

lemma updateUI_text_other:
  "k \<notin> fst ` set xs \<Longrightarrow>
   map_option el_textContent (doc (updateUIWithSettings xs w) (k @ ''-value''))
     = map_option el_textContent (doc w (k @ ''-value''))"
  by (induction xs w rule: updateUIWithSettings.induct) (auto simp: updateControl_text_other)

lemma updateUI_pending_other:
  "k \<notin> fst ` set xs \<Longrightarrow>
   map_of (pendingUpdates (updateUIWithSettings xs w)) k = map_of (pendingUpdates w) k"
  by (induction xs w rule: updateUIWithSettings.induct) (auto simp: AList.delete_conv)

lemma distinct_updateUI:
  "distinct (map fst (pendingUpdates w)) \<Longrightarrow>
   distinct (map fst (pendingUpdates (updateUIWithSettings xs w)))"
  by (induction xs w rule: updateUIWithSettings.induct) (auto simp: distinct_delete)

subsection \<open>Stale entries are skipped\<close>

lemma stale_skip:
  assumes "\<forall>v'. (K, v') \<in> set xs \<longrightarrow> v' \<noteq> V" and "map_of (pendingUpdates w) K = Some V"
  shows "updateUIWithSettings xs w = updateUIWithSettings (filter (\<lambda>p. fst p \<noteq> K) xs) w"
  using assms
proof (induction xs w rule: updateUIWithSettings.induct)
  case (1 w)
  then show ?case by simp
next
  case (2 key val settings w)
  show ?case
  proof (cases "key = K")
    case True
    with 2 show ?thesis by (auto simp: hasOwnProperty_def getProperty_def)
  next
    case False
    with 2 show ?thesis by (auto simp: hasOwnProperty_def getProperty_def)
  qed
qed

lemma stale_kept:
  assumes "\<forall>v'. (K, v') \<in> set xs \<longrightarrow> v' \<noteq> V" and "map_of (pendingUpdates w) K = Some V"
  shows "map_of (pendingUpdates (updateUIWithSettings xs w)) K = Some V"
  using assms
proof (induction xs w rule: updateUIWithSettings.induct)
  case (1 w)
  then show ?case by simp
next
  case (2 key val settings w)
  show ?case
  proof (cases "key = K")
    case True
    with 2 show ?thesis by (auto simp: hasOwnProperty_def getProperty_def)
  next
    case False
    with 2 show ?thesis by (auto simp: hasOwnProperty_def getProperty_def)
  qed
qed

subsection \<open>The ledger after a pass\<close>

lemma ledger_updateUI:
  "distinct (map fst (pendingUpdates w)) \<Longrightarrow>
   pendingUpdates (updateUIWithSettings xs w) = filter (\<lambda>p. p \<notin> set xs) (pendingUpdates w)"
proof (induction xs w rule: updateUIWithSettings.induct)
  case (1 w)
  then show ?case by simp
next
  case (2 key val settings w)
  let ?l = "pendingUpdates w"
  consider (stale) "hasOwnProperty ?l key" "getProperty ?l key \<noteq> val"
    | (match) "hasOwnProperty ?l key" "getProperty ?l key = val"
    | (none) "\<not> hasOwnProperty ?l key" by blast
  then show ?case
  proof cases
    case stale
    then obtain v where v: "map_of ?l key = Some v" "v \<noteq> val"
      by (auto simp: hasOwnProperty_def getProperty_def)
    have "(key, val) \<notin> set ?l"
    proof
      assume "(key, val) \<in> set ?l"
      then have "map_of ?l key = Some val" using "2.prems" by simp
      with v show False by simp
    qed
    then show ?thesis using stale "2.IH"(1) "2.prems" by (simp add: filter_drop_absent)
  next
    case match
    then have v: "map_of ?l key = Some val"
      by (auto simp: hasOwnProperty_def getProperty_def)
    have d: "distinct (map fst (AList.delete key ?l))" using "2.prems" by (simp add: distinct_delete)
    have "filter (\<lambda>p. p \<notin> set settings) (AList.delete key ?l)
          = filter (\<lambda>p. p \<notin> set ((key, val) # settings)) ?l"
      unfolding delete_as_filter [OF "2.prems" v] by (simp add: conj_commute)
    then show ?thesis using match "2.IH"(2) d by simp
  next
    case none
    then have "map_of ?l key = None" by (simp add: hasOwnProperty_def)
    then have "(key, val) \<notin> set ?l" by (metis map_of_eq_None_iff fst_conv image_eqI)
    then show ?thesis using none "2.IH"(3) "2.prems" by (simp add: filter_drop_absent)
  qed
qed

subsection \<open>An entry that is not stale reaches its control\<close>

lemma updateUI_step_fresh:
  assumes "\<not> (hasOwnProperty (pendingUpdates w) K \<and> getProperty (pendingUpdates w) K \<noteq> V)"
  shows "\<exists>l. updateUIWithSettings ((K, V) # zs) w =
           updateUIWithSettings zs (w\<lparr>pendingUpdates := l, doc := updateControl K V (doc w)\<rparr>)
         \<and> map_of l K = None"
proof (cases "hasOwnProperty (pendingUpdates w) K")
  case True
  with assms have "getProperty (pendingUpdates w) K = V" by simp
  with True show ?thesis
    by (intro exI [where x = "AList.delete K (pendingUpdates w)"]) (simp add: AList.delete_conv)
next
  case False
  then have "map_of (pendingUpdates w) K = None" by (simp add: hasOwnProperty_def)
  with False show ?thesis
    by (intro exI [where x = "pendingUpdates w"]) simp
qed

lemma fresh_decompose:
  assumes dist: "distinct (map fst xs)" and mem: "(K, V) \<in> set xs"
    and fresh: "\<not> (hasOwnProperty (pendingUpdates w) K \<and> getProperty (pendingUpdates w) K \<noteq> V)"
  obtains ys zs l where "K \<notin> fst ` set zs"
    and "updateUIWithSettings xs w =
           updateUIWithSettings zs
             ((updateUIWithSettings ys w)\<lparr>pendingUpdates := l,
                doc := updateControl K V (doc (updateUIWithSettings ys w))\<rparr>)"
    and "map_of l K = None"
proof -
  from dist mem obtain ys zs where xs: "xs = ys @ (K, V) # zs"
    and ys: "K \<notin> fst ` set ys" and zs: "K \<notin> fst ` set zs"
    by (rule split_distinct_key)
  define w1 where "w1 = updateUIWithSettings ys w"
  have "map_of (pendingUpdates w1) K = map_of (pendingUpdates w) K"
    unfolding w1_def using ys by (rule updateUI_pending_other)
  then have "\<not> (hasOwnProperty (pendingUpdates w1) K \<and> getProperty (pendingUpdates w1) K \<noteq> V)"
    using fresh by (simp add: hasOwnProperty_def getProperty_def)
  from updateUI_step_fresh [OF this, of zs] obtain l where
    step: "updateUIWithSettings ((K, V) # zs) w1 =
             updateUIWithSettings zs (w1\<lparr>pendingUpdates := l, doc := updateControl K V (doc w1)\<rparr>)"
    and l: "map_of l K = None" by blast
  have "updateUIWithSettings xs w =
          updateUIWithSettings zs (w1\<lparr>pendingUpdates := l, doc := updateControl K V (doc w1)\<rparr>)"
    by (simp only: xs updateUI_append w1_def [symmetric] step)
  then have "updateUIWithSettings xs w =
           updateUIWithSettings zs
             ((updateUIWithSettings ys w)\<lparr>pendingUpdates := l,
                doc := updateControl K V (doc (updateUIWithSettings ys w))\<rparr>)"
    by (simp only: w1_def)
  with zs show thesis using l by (rule that)
qed

lemma fresh_pending:
  assumes dist: "distinct (map fst xs)" and mem: "(K, V) \<in> set xs"
    and fresh: "\<not> (hasOwnProperty (pendingUpdates w) K \<and> getProperty (pendingUpdates w) K \<noteq> V)"
  shows "map_of (pendingUpdates (updateUIWithSettings xs w)) K = None"
proof -
  from dist mem fresh obtain ys zs l where zs: "K \<notin> fst ` set zs"
    and res: "updateUIWithSettings xs w =
           updateUIWithSettings zs
             ((updateUIWithSettings ys w)\<lparr>pendingUpdates := l,
                doc := updateControl K V (doc (updateUIWithSettings ys w))\<rparr>)"
    and l: "map_of l K = None"
    by (rule fresh_decompose)
  show ?thesis unfolding res using l by (simp add: updateUI_pending_other [OF zs])
qed

lemma fresh_control:
  assumes dist: "distinct (map fst xs)" and mem: "(K, V) \<in> set xs"
    and fresh: "\<not> (hasOwnProperty (pendingUpdates w) K \<and> getProperty (pendingUpdates w) K \<noteq> V)"
    and elem: "doc w K = Some e"
  shows "\<exists>e'. doc (updateUIWithSettings xs w) K = Some e' \<and> el_value e' = assigned e V
              \<and> el_type e' = el_type e \<and> el_tagName e' = el_tagName e"
    and "el_type e = Some ''range'' \<Longrightarrow> doc w (K @ ''-value'') \<noteq> None \<Longrightarrow>
         \<exists>sp'. doc (updateUIWithSettings xs w) (K @ ''-value'') = Some sp'
               \<and> el_textContent sp' = displayValue K (parseFloat (assigned e V))"
proof -
  from dist mem fresh obtain ys zs l where zs: "K \<notin> fst ` set zs"
    and res0: "updateUIWithSettings xs w =
           updateUIWithSettings zs
             ((updateUIWithSettings ys w)\<lparr>pendingUpdates := l,
                doc := updateControl K V (doc (updateUIWithSettings ys w))\<rparr>)"
    by (rule fresh_decompose)
  define w1 where "w1 = updateUIWithSettings ys w"
  define w2 where "w2 = w1\<lparr>pendingUpdates := l, doc := updateControl K V (doc w1)\<rparr>"
  have res: "updateUIWithSettings xs w = updateUIWithSettings zs w2"
    using res0 by (simp only: w1_def w2_def)
  have "doc w1 K \<noteq> None" unfolding w1_def using elem by (simp add: updateUI_dom)
  then obtain e1 where e1: "doc w1 K = Some e1" by blast
  have "map_option el_type (doc w1 K) = map_option el_type (doc w K)"
    and "map_option el_tagName (doc w1 K) = map_option el_tagName (doc w K)"
    unfolding w1_def by (rule updateUI_type, rule updateUI_tagName)
  with e1 elem have same: "el_type e1 = el_type e" "el_tagName e1 = el_tagName e" by simp_all
  then have asg: "assigned e1 V = assigned e V" by (rule assigned_cong)
  have d2: "doc w2 K = Some (e1\<lparr>el_value := assigned e V\<rparr>)"
    unfolding w2_def using updateControl_at_key [of "doc w1" K e1 V] e1 asg by simp
  show "\<exists>e'. doc (updateUIWithSettings xs w) K = Some e' \<and> el_value e' = assigned e V
              \<and> el_type e' = el_type e \<and> el_tagName e' = el_tagName e"
  proof -
    have "doc (updateUIWithSettings zs w2) K \<noteq> None" using d2 by (simp add: updateUI_dom)
    then obtain e' where e': "doc (updateUIWithSettings zs w2) K = Some e'" by blast
    have "map_option el_value (doc (updateUIWithSettings zs w2) K) = map_option el_value (doc w2 K)"
      using zs by (rule updateUI_value_other)
    moreover have "map_option el_type (doc (updateUIWithSettings zs w2) K)
                     = map_option el_type (doc w2 K)"
      by (rule updateUI_type)
    moreover have "map_option el_tagName (doc (updateUIWithSettings zs w2) K)
                     = map_option el_tagName (doc w2 K)"
      by (rule updateUI_tagName)
    ultimately show ?thesis unfolding res using e' d2 same by simp
  qed
  show "\<exists>sp'. doc (updateUIWithSettings xs w) (K @ ''-value'') = Some sp'
               \<and> el_textContent sp' = displayValue K (parseFloat (assigned e V))"
    if rng: "el_type e = Some ''range''" and lab: "doc w (K @ ''-value'') \<noteq> None"
  proof -
    have "doc w1 (K @ ''-value'') \<noteq> None" unfolding w1_def using lab by (simp add: updateUI_dom)
    then obtain sp1 where sp1: "doc w1 (K @ ''-value'') = Some sp1" by blast
    have l2: "doc w2 (K @ ''-value'')
               = Some (sp1\<lparr>el_textContent := displayValue K (parseFloat (assigned e V))\<rparr>)"
      unfolding w2_def
      using updateControl_label [of "doc w1" K e1 sp1 V] e1 sp1 rng same asg by simp
    then have "doc (updateUIWithSettings zs w2) (K @ ''-value'') \<noteq> None"
      by (simp add: updateUI_dom)
    then obtain sp' where sp': "doc (updateUIWithSettings zs w2) (K @ ''-value'') = Some sp'"
      by blast
    have "map_option el_textContent (doc (updateUIWithSettings zs w2) (K @ ''-value''))
            = map_option el_textContent (doc w2 (K @ ''-value''))"
      using zs by (rule updateUI_text_other)
    then show ?thesis unfolding res using sp' l2 by simp
  qed
qed

subsection \<open>A key without a control\<close>

lemma unmanaged_rel:
  assumes "doc w1 = doc w2" and "doc w1 K = None"
    and "\<forall>k. k \<noteq> K \<longrightarrow> map_of (pendingUpdates w1) k = map_of (pendingUpdates w2) k"
  shows "doc (updateUIWithSettings xs w1)
           = doc (updateUIWithSettings (filter (\<lambda>p. fst p \<noteq> K) xs) w2)"
  using assms
proof (induction xs arbitrary: w1 w2)
  case Nil
  then show ?case by simp
next
  case (Cons x xs)
  obtain key val where x: "x = (key, val)" by (cases x)
  show ?case
  proof (cases "key = K")
    case True
    have "updateControl K val (doc w1) = doc w1" using Cons.prems(2) by (rule updateControl_None)
    then show ?thesis using True x Cons.prems
      by (auto intro!: Cons.IH simp: AList.delete_conv)
  next
    case False
    then have same: "hasOwnProperty (pendingUpdates w1) key = hasOwnProperty (pendingUpdates w2) key"
      "getProperty (pendingUpdates w1) key = getProperty (pendingUpdates w2) key"
      using Cons.prems(3) by (simp_all add: hasOwnProperty_def getProperty_def)
    show ?thesis using False x same Cons.prems
      by (auto intro!: Cons.IH simp: AList.delete_conv updateControl_dom)
  qed
qed

subsection \<open>The ledger under every event\<close>

lemma distinct_handle:
  "distinct (map fst (pendingUpdates w)) \<Longrightarrow> distinct (map fst (pendingUpdates (handle ev w)))"
  by (cases ev)
     (auto simp: applySetting_def applyRecommended_def resetAllSettings_def Let_def
                 distinct_update distinct_updateUI split: option.splits)

lemma distinct_handleAll:
  "distinct (map fst (pendingUpdates w)) \<Longrightarrow>
   distinct (map fst (pendingUpdates (handleAll es w)))"
  by (induction es arbitrary: w) (auto simp: distinct_handle)

section \<open>Properties of the extension\<close>

subsection \<open>Writes to the store\<close>


lemma updateAll_lookup:
  "updateAll xs cfg k =
     (case map_of (rev xs) k of
        None \<Rightarrow> cfg k
      | Some v \<Rightarrow> if v = Undefined then None else Some v)"
proof (induction xs cfg rule: updateAll.induct)
  case (1 cfg)
  then show ?case by simp
next
  case (2 key val settings cfg)
  then show ?case
    by (auto simp: configUpdate_def map_add_def split: option.splits)
qed

lemma updateAll_idem: "updateAll xs (updateAll xs cfg) = updateAll xs cfg"
  by (rule ext) (simp add: updateAll_lookup split: option.splits)





subsection \<open>The debounce\<close>








subsection \<open>Values on the example panel\<close>


lemma assigned_slider_18: "assigned (slider ''14'') (Num 18) = ''18''"
  by code_simp



section \<open>The claims\<close>

subsection \<open>C1: staleness suppression and resolution\<close>



subsection \<open>C2: the last intent wins\<close>

text \<open>
  Claim C2. Committing \<open>A\<close> and then \<open>B\<close> for the same key leaves the ledger exactly as
  committing \<open>B\<close> alone does. After that, a snapshot (with distinct keys) that maps the key
  to \<open>A\<close>, \<open>A\<close> different from \<open>B\<close>, is suppressed: the pending entry \<open>B\<close> stays and the
  control keeps its value. A snapshot that maps the key to \<open>B\<close> resolves: the entry is
  cleared and the control holds the string assigned for \<open>B\<close>.
\<close>

theorem last_intent_wins:
  "pendingUpdates (applySetting K B (applySetting K A w)) = pendingUpdates (applySetting K B w)
   \<and> (A \<noteq> B \<and> distinct (map fst xs) \<and> map_of xs K = Some A \<longrightarrow>
        map_of (pendingUpdates (updateUIWithSettings xs (applySetting K B (applySetting K A w)))) K
          = Some B
      \<and> map_option el_value (doc (updateUIWithSettings xs (applySetting K B (applySetting K A w))) K)
          = map_option el_value (doc w K))
   \<and> (distinct (map fst ys) \<and> map_of ys K = Some B \<longrightarrow>
        map_of (pendingUpdates (updateUIWithSettings ys (applySetting K B (applySetting K A w)))) K
          = None
      \<and> (\<forall>e. doc w K = Some e \<longrightarrow>
            (\<exists>e'. doc (updateUIWithSettings ys (applySetting K B (applySetting K A w))) K = Some e'
                  \<and> el_value e' = assigned e B)))"
proof (intro conjI impI allI)
  let ?w = "applySetting K B (applySetting K A w)"
  show "pendingUpdates ?w = pendingUpdates (applySetting K B w)"
    by (simp add: applySetting_def update_update_same)
  have p: "map_of (pendingUpdates ?w) K = Some B"
    by (simp add: applySetting_def AList.update_conv')
  have d: "doc ?w = doc w" by (simp add: applySetting_def)
  {
    assume a: "A \<noteq> B \<and> distinct (map fst xs) \<and> map_of xs K = Some A"
    then have all: "\<forall>v'. (K, v') \<in> set xs \<longrightarrow> v' \<noteq> B" by (intro stale_all [of xs K A]) simp_all
    show "map_of (pendingUpdates (updateUIWithSettings xs ?w)) K = Some B"
      using all p by (rule stale_kept)
    have "K \<notin> fst ` set (filter (\<lambda>p. fst p \<noteq> K) xs)" by auto
    then have "map_option el_value (doc (updateUIWithSettings (filter (\<lambda>p. fst p \<noteq> K) xs) ?w) K)
                 = map_option el_value (doc ?w K)"
      by (rule updateUI_value_other)
    then show "map_option el_value (doc (updateUIWithSettings xs ?w) K) = map_option el_value (doc w K)"
      using stale_skip [OF all p] d by simp
  }
  {
    assume b: "distinct (map fst ys) \<and> map_of ys K = Some B"
    then have dist: "distinct (map fst ys)" and mem: "(K, B) \<in> set ys"
      by (auto dest: map_of_SomeD)
    have fresh: "\<not> (hasOwnProperty (pendingUpdates ?w) K \<and> getProperty (pendingUpdates ?w) K \<noteq> B)"
      using p by (simp add: getProperty_def)
    show "map_of (pendingUpdates (updateUIWithSettings ys ?w)) K = None"
      using dist mem fresh by (rule fresh_pending)
    fix e assume "doc w K = Some e"
    then have e: "doc ?w K = Some e" using d by simp
    from fresh_control(1) [OF dist mem fresh e]
    show "\<exists>e'. doc (updateUIWithSettings ys ?w) K = Some e' \<and> el_value e' = assigned e B" by blast
  }
qed

theorem last_intent_wins_witness:
  "Num 16 \<noteq> Num 18
   \<and> pendingUpdates (applySetting ''editor.fontSize'' (Num 18)
                       (applySetting ''editor.fontSize'' (Num 16) loaded))
       = [(''editor.fontSize'', Num 18)]
   \<and> map_of (pendingUpdates (updateUIWithSettings [(''editor.fontSize'', Num 16)]
        (applySetting ''editor.fontSize'' (Num 18) (applySetting ''editor.fontSize'' (Num 16) loaded))))
        ''editor.fontSize'' = Some (Num 18)
   \<and> map_of (pendingUpdates (updateUIWithSettings [(''editor.fontSize'', Num 18)]
        (applySetting ''editor.fontSize'' (Num 18) (applySetting ''editor.fontSize'' (Num 16) loaded))))
        ''editor.fontSize'' = None
   \<and> (\<exists>e'. doc (updateUIWithSettings [(''editor.fontSize'', Num 18)]
        (applySetting ''editor.fontSize'' (Num 18) (applySetting ''editor.fontSize'' (Num 16) loaded)))
        ''editor.fontSize'' = Some e' \<and> el_value e' = ''18'')"
proof -
  let ?K = "''editor.fontSize''"
  let ?w = "applySetting ?K (Num 18) (applySetting ?K (Num 16) loaded)"
  note c2 = last_intent_wins [of ?K "Num 18" "Num 16" loaded "[(?K, Num 16)]" "[(?K, Num 18)]"]
  have ne: "Num 16 \<noteq> Num 18" by simp
  have one: "pendingUpdates (applySetting ?K (Num 18) loaded) = [(?K, Num 18)]"
    by (simp add: applySetting_def loaded_def)
  have s16: "distinct (map fst [(?K, Num 16)])" "map_of [(?K, Num 16)] ?K = Some (Num 16)"
    by simp_all
  have s18: "distinct (map fst [(?K, Num 18)])" "map_of [(?K, Num 18)] ?K = Some (Num 18)"
    by simp_all
  have d: "doc loaded ?K = Some (slider ''14'')" by (simp add: loaded_def panelDoc_def)
  have "pendingUpdates ?w = [(?K, Num 18)]" using c2 one by metis
  moreover have "map_of (pendingUpdates (updateUIWithSettings [(?K, Num 16)] ?w)) ?K = Some (Num 18)"
    using c2 ne s16 by blast
  moreover have "map_of (pendingUpdates (updateUIWithSettings [(?K, Num 18)] ?w)) ?K = None"
    using c2 s18 by blast
  moreover have "\<exists>e'. doc (updateUIWithSettings [(?K, Num 18)] ?w) ?K = Some e' \<and> el_value e' = ''18''"
    using c2 s18 d assigned_slider_18 by metis
  ultimately show ?thesis using ne by blast
qed

subsection \<open>C3: the debounced listener\<close>



subsection \<open>C4: the bulk operations and the ledger\<close>




subsection \<open>C5: the label of a line-height slider\<close>




subsection \<open>C6: the bulk operations are idempotent on the store\<close>

text \<open>
  Claim C6. Applying the recommended settings twice leaves the store as applying them
  once does; resetting the same keys twice leaves the store as resetting them once does;
  and the same holds for writing any settings object twice.
\<close>

theorem bulk_operations_idempotent:
  "config (applyRecommendedSettings (applyRecommendedSettings p)) = config (applyRecommendedSettings p)
   \<and> config (resetSettings settingKeys (resetSettings settingKeys p))
       = config (resetSettings settingKeys p)
   \<and> config (applySettings settings (applySettings settings p)) = config (applySettings settings p)"
  by (simp add: applyRecommendedSettings_def resetSettings_def applySettings_def
        sendCurrentSettings_def updateAll_idem)

subsection \<open>C7: a key without a control\<close>

text \<open>
  Claim C7. When the document has no element for the key \<open>K\<close>, the document after a pass
  is the document after the pass over the snapshot without \<open>K\<close>; there is still no element
  for \<open>K\<close>; a pass over the single entry leaves the document as it is; and the pass posts
  nothing to the extension. The pass is a total function: there is no error outcome.
\<close>

theorem unmanaged_key_skipped:
  assumes "doc w K = None"
  shows "doc (updateUIWithSettings settings w)
           = doc (updateUIWithSettings (filter (\<lambda>p. fst p \<noteq> K) settings) w)
       \<and> doc (updateUIWithSettings settings w) K = None
       \<and> doc (updateUIWithSettings [(K, val)] w) = doc w
       \<and> posted (updateUIWithSettings settings w) = posted w"
proof (intro conjI)
  show "doc (updateUIWithSettings settings w)
           = doc (updateUIWithSettings (filter (\<lambda>p. fst p \<noteq> K) settings) w)"
    using assms by (intro unmanaged_rel) simp_all
  show "doc (updateUIWithSettings settings w) K = None"
    using assms by (simp add: updateUI_dom)
  show "doc (updateUIWithSettings [(K, val)] w) = doc w"
    using assms by (simp add: updateControl_None)
  show "posted (updateUIWithSettings settings w) = posted w"
    by (rule posted_updateUI)
qed

theorem unmanaged_key_skipped_witness:
  "doc loaded ''files.autoSave'' = None
   \<and> doc (updateUIWithSettings [(''files.autoSave'', Str ''off''), (''editor.cursorStyle'', Str ''block'')] loaded)
       = doc (updateUIWithSettings [(''editor.cursorStyle'', Str ''block'')] loaded)
   \<and> posted (updateUIWithSettings [(''files.autoSave'', Str ''off''), (''editor.cursorStyle'', Str ''block'')] loaded) = []"
proof -
  have n: "doc loaded ''files.autoSave'' = None" by (simp add: loaded_def panelDoc_def)
  have f: "filter (\<lambda>p. fst p \<noteq> ''files.autoSave'')
             [(''files.autoSave'', Str ''off''), (''editor.cursorStyle'', Str ''block'')]
           = [(''editor.cursorStyle'', Str ''block'')]" by simp
  have p: "posted loaded = []" by (simp add: loaded_def)
  show ?thesis
    using unmanaged_key_skipped [OF n, of "[(''files.autoSave'', Str ''off''), (''editor.cursorStyle'', Str ''block'')]"]
      n f p by metis
qed

subsection \<open>C8: at most one pending entry per key\<close>

text \<open>
  Claim C8. The ledger never holds two entries for one key: if its keys are distinct (as
  in the empty ledger the script starts with), they are distinct after any sequence of
  events (commits, slider moves, the two buttons, reconciliation passes), and so the
  number of entries for any key \<open>K\<close> is at most one.
\<close>

theorem at_most_one_pending_entry:
  assumes "distinct (map fst (pendingUpdates w))"
  shows "distinct (map fst (pendingUpdates (handleAll es w)))
       \<and> length (filter (\<lambda>p. fst p = K) (pendingUpdates (handleAll es w))) \<le> 1"
proof -
  have "distinct (map fst (pendingUpdates (handleAll es w)))"
    using assms by (rule distinct_handleAll)
  moreover from this have "length (filter (\<lambda>p. fst p = K) (pendingUpdates (handleAll es w))) \<le> 1"
    by (rule distinct_keys_count)
  ultimately show ?thesis by simp
qed

theorem at_most_one_pending_entry_witness:
  "distinct (map fst (pendingUpdates loaded))
   \<and> length (filter (\<lambda>p. fst p = ''editor.fontSize'')
        (pendingUpdates (handleAll
           [Commit ''editor.fontSize'' (Num 16), Commit ''editor.fontSize'' (Num 18),
            UpdateSettings [(''editor.fontSize'', Num 16)], PressReset] loaded))) \<le> 1"
proof -
  have h: "distinct (map fst (pendingUpdates loaded))" by (simp add: loaded_def)
  show ?thesis
    using h at_most_one_pending_entry [OF h, of "[Commit ''editor.fontSize'' (Num 16), Commit ''editor.fontSize'' (Num 18),
            UpdateSettings [(''editor.fontSize'', Num 16)], PressReset]" "''editor.fontSize''"]
    by blast
qed

subsection \<open>C9: a pass only deletes matched entries\<close>

text \<open>
  Claim C9. A reconciliation pass neither adds nor changes a pending entry: the ledger
  after the pass is the ledger before it without the entries that occur (key and value)
  in the snapshot. The pass posts no message, so no \<open>applySettings\<close> intent comes out of
  pushing values to controls.
\<close>

theorem reconciliation_only_deletes_matched:
  assumes "distinct (map fst (pendingUpdates w))"
  shows "pendingUpdates (updateUIWithSettings settings w)
           = filter (\<lambda>p. p \<notin> set settings) (pendingUpdates w)
       \<and> posted (updateUIWithSettings settings w) = posted w"
  using assms by (simp add: ledger_updateUI posted_updateUI)

theorem reconciliation_only_deletes_matched_witness:
  "distinct (map fst (pendingUpdates
      (applySetting ''editor.fontSize'' (Num 16) (applySetting ''editor.cursorStyle'' (Str ''block'') loaded))))
   \<and> pendingUpdates (updateUIWithSettings
        [(''editor.fontSize'', Num 16), (''editor.cursorStyle'', Str ''line'')]
        (applySetting ''editor.fontSize'' (Num 16) (applySetting ''editor.cursorStyle'' (Str ''block'') loaded)))
      = [(''editor.cursorStyle'', Str ''block'')]
   \<and> posted (updateUIWithSettings
        [(''editor.fontSize'', Num 16), (''editor.cursorStyle'', Str ''line'')]
        (applySetting ''editor.fontSize'' (Num 16) (applySetting ''editor.cursorStyle'' (Str ''block'') loaded)))
      = [ApplySettings [(''editor.cursorStyle'', Str ''block'')], ApplySettings [(''editor.fontSize'', Num 16)]]"
proof -
  let ?w = "applySetting ''editor.fontSize'' (Num 16) (applySetting ''editor.cursorStyle'' (Str ''block'') loaded)"
  let ?s = "[(''editor.fontSize'', Num 16), (''editor.cursorStyle'', Str ''line'')]"
  have l: "pendingUpdates ?w = [(''editor.cursorStyle'', Str ''block''), (''editor.fontSize'', Num 16)]"
    by (simp add: applySetting_def loaded_def)
  have p: "posted ?w = [ApplySettings [(''editor.cursorStyle'', Str ''block'')],
                        ApplySettings [(''editor.fontSize'', Num 16)]]"
    by (simp add: applySetting_def loaded_def)
  have h: "distinct (map fst (pendingUpdates ?w))" unfolding l by simp
  have f: "filter (\<lambda>p. p \<notin> set ?s) (pendingUpdates ?w) = [(''editor.cursorStyle'', Str ''block'')]"
    unfolding l by simp
  show ?thesis using h reconciliation_only_deletes_matched [OF h, of ?s] f p by metis
qed

subsection \<open>C10: an absent store value\<close>



end
